theory Spec2Isabelle
  imports Complex_Main
begin

section \<open>Rating formula\<close>

text \<open>
  JavaScript numbers are modelled as rationals: player ratings are integers, a team
  average is a half-integer, and \<open>diff / 40\<close> is a multiple of \<open>1/80\<close>, so every value the
  formula meets is exact long before double precision matters.
  \<open>Math.round\<close> rounds to the nearest integer, a tie going towards plus infinity.
\<close>

definition clamp :: "'a::linorder \<Rightarrow> 'a \<Rightarrow> 'a \<Rightarrow> 'a" where
  "clamp n mn mx = max mn (min mx n)"

definition math_round :: "rat \<Rightarrow> int" where
  "math_round x = \<lfloor>x + 1 / 2\<rfloor>"

record score_change =
  winDelta :: int
  loseDelta :: int

definition computeScoreChange :: "rat \<Rightarrow> rat \<Rightarrow> bool \<Rightarrow> score_change" where
  "computeScoreChange avgWinnerScore avgLoserScore isShutout =
     (let base = 10;
          diff = avgLoserScore - avgWinnerScore;
          dynamic = math_round (base + diff / 40);
          dynamic = clamp dynamic 1 20;
          shutoutBonus = (if isShutout then 5 else 0)
      in \<lparr>winDelta = dynamic + shutoutBonus, loseDelta = dynamic\<rparr>)"

text \<open>
  The formula in the words of its specification: the rounded value of
  \<open>10 + (r2 - r1) / 40\<close>, brought into the inclusive range from 1 to 20.
\<close>

definition spec_dynamic :: "rat \<Rightarrow> rat \<Rightarrow> int" where
  "spec_dynamic r1 r2 =
     (let d = round (10 + (r2 - r1) / 40)
      in if d < 1 then 1 else if 20 < d then 20 else d)"

text \<open>
  Rounding with ties away from zero, the other usual reading of "round". It differs from
  \<open>Math.round\<close> only at negative ties, which the clamp sends to 1 either way.
\<close>

definition round_half_away :: "rat \<Rightarrow> int" where
  "round_half_away x = (if 0 \<le> x then \<lfloor>x + 1 / 2\<rfloor> else \<lceil>x - 1 / 2\<rceil>)"

section \<open>Match session\<close>

text \<open>
  A player as the client holds it: the document id together with the document's fields.
  The field \<open>id\<close> is \<open>pid\<close> and the rating field \<open>score\<close> is \<open>pscore\<close> here, the first
  because of the identity function, the second because the live match has a state
  variable \<open>score\<close> of its own. \<open>seasonsWon\<close> is absent from a freshly created document.
\<close>

record player =
  pid :: string
  firstName :: string
  lastName :: string
  country :: string
  img :: string
  pscore :: int
  gamesWon :: int
  gamesLost :: int
  gamesAsStriker :: int
  gamesAsDefender :: int
  totalGames :: int
  goalsAsStriker :: int
  goalsAsDefender :: int
  shutoutWins :: int
  totalPlaytime :: int
  seasonsWon :: "int option"

datatype position = Striker | Defender

text \<open>The keys \<open>"team1"\<close> and \<open>"team2"\<close> of the score object and of a goal-log entry.\<close>

datatype team_key = Team1Key | Team2Key

text \<open>The winner labels \<open>"Team 1"\<close> and \<open>"Team 2"\<close>; \<open>null\<close> is \<open>None\<close>.\<close>

datatype winner_label = Team_1 | Team_2

record team =
  striker :: player
  defender :: player

record goal =
  scorer :: player
  position :: position
  teamKey :: team_key

text \<open>
  The state variables of \<open>GameScreen\<close>. The score object is indexed by a computed key in
  the source (\<open>prev[teamKey]\<close>), so it is a function of the key.
\<close>

record game =
  team1 :: team
  team2 :: team
  score :: "team_key \<Rightarrow> int"
  goalHistory :: "goal list"
  isSwapped :: bool
  winner :: "winner_label option"
  startTime :: int

definition winningScoreFor :: "int \<Rightarrow> int \<Rightarrow> int" where
  "winningScoreFor t1 t2 =
     (let isDeuce = (t1 = 5 \<and> t2 = 5) in if isDeuce then 7 else 6)"

text \<open>
  \<open>GameScreen\<close> starts from the two selected teams; the selection's \<open>forward\<close> is the
  striker.
\<close>

definition startMatch :: "team \<Rightarrow> team \<Rightarrow> int \<Rightarrow> game" where
  "startMatch initialTeam1 initialTeam2 now =
     \<lparr>team1 = initialTeam1, team2 = initialTeam2, score = (\<lambda>_. 0), goalHistory = [],
      isSwapped = False, winner = None, startTime = now\<rparr>"

text \<open>The threshold of the current render: \<open>winningScoreFor(score.team1, score.team2)\<close>.\<close>

definition winningScore :: "game \<Rightarrow> int" where
  "winningScore st = winningScoreFor (score st Team1Key) (score st Team2Key)"

text \<open>
  The body of the effect that watches score, winner and threshold. Both tests read the
  values of the render the effect belongs to, so the second test sees the winner as it
  was before the first assignment.
\<close>

definition winner_effect :: "game \<Rightarrow> game" where
  "winner_effect st =
     (let st1 = (if winner st = None \<and>
                    (winningScore st \<le> score st Team1Key \<or> winningScore st \<le> score st Team2Key)
                 then st\<lparr>winner := Some (if score st Team2Key < score st Team1Key
                                          then Team_1 else Team_2)\<rparr>
                 else st)
      in if winner st \<noteq> None \<and> score st Team1Key < winningScore st
            \<and> score st Team2Key < winningScore st
         then st1\<lparr>winner := None\<rparr>
         else st1)"

text \<open>
  The players handed to \<open>handleGoal\<close> are the four of the running match, which are never
  null (a match starts only when all four slots are filled), so the null test on the
  player always passes.
\<close>

definition handleGoal :: "game \<Rightarrow> player \<Rightarrow> position \<Rightarrow> game" where
  "handleGoal st p pos =
     (let k = (if pid p = pid (striker (team1 st)) \<or> pid p = pid (defender (team1 st))
               then Team1Key else Team2Key)
      in st\<lparr>score := (score st)(k := score st k + 1),
            goalHistory := goalHistory st @ [\<lparr>scorer = p, position = pos, teamKey = k\<rparr>]\<rparr>)"

text \<open>
  \<open>handleUndoGoal\<close> issues the score update from inside the updater of the goal log; the
  updater is taken to run once for each call, as it does in a production build.
\<close>

definition handleUndoGoal :: "game \<Rightarrow> game" where
  "handleUndoGoal st =
     (if length (goalHistory st) = 0 then st
      else let lastGoal = last (goalHistory st)
           in st\<lparr>score := (score st)(teamKey lastGoal :=
                               max 0 (score st (teamKey lastGoal) - 1)),
                 goalHistory := butlast (goalHistory st)\<rparr>)"

definition swapPositions :: "game \<Rightarrow> int \<Rightarrow> game" where
  "swapPositions st teamNum =
     (if teamNum = 1
      then st\<lparr>team1 := \<lparr>striker = defender (team1 st), defender = striker (team1 st)\<rparr>\<rparr>
      else st\<lparr>team2 := \<lparr>striker = defender (team2 st), defender = striker (team2 st)\<rparr>\<rparr>)"

definition swapSides :: "game \<Rightarrow> game" where
  "swapSides st = st\<lparr>isSwapped := \<not> isSwapped st\<rparr>"

text \<open>
  A handler followed by the effect it triggers. Recording a goal and undoing one from a
  non-empty log replace the score object, so the effect runs; an undo on the empty log
  returns the state it was given and nothing is rendered again. The effect's own
  assignment makes it run once more, which changes nothing (\<open>winner_effect_idem\<close> below).
\<close>

definition recordGoal :: "game \<Rightarrow> player \<Rightarrow> position \<Rightarrow> game" where
  "recordGoal st p pos = winner_effect (handleGoal st p pos)"

definition undoLastGoal :: "game \<Rightarrow> game" where
  "undoLastGoal st =
     (if goalHistory st = [] then handleUndoGoal st else winner_effect (handleUndoGoal st))"

text \<open>What \<open>confirmWin\<close> hands to \<open>onGameEnd\<close>.\<close>

record match_summary =
  sum_winner :: "winner_label option"
  sum_team1 :: team
  sum_team2 :: team
  sum_score :: "team_key \<Rightarrow> int"
  sum_goalHistory :: "goal list"
  sum_duration :: int

definition confirmWin :: "game \<Rightarrow> int \<Rightarrow> match_summary" where
  "confirmWin st now =
     (let duration = now - startTime st
      in \<lparr>sum_winner = winner st, sum_team1 = team1 st, sum_team2 = team2 st,
          sum_score = score st, sum_goalHistory = goalHistory st,
          sum_duration = duration\<rparr>)"

text \<open>
  The confirm button is part of the overlay that is rendered only while a winner is
  declared (\<open>winner && ...\<close>); \<open>None\<close> is the button not being there to press.
\<close>

definition confirmButton :: "game \<Rightarrow> int \<Rightarrow> match_summary option" where
  "confirmButton st now = (if winner st \<noteq> None then Some (confirmWin st now) else None)"

text \<open>The calls a controller can make on a live match, and a sequence of them.\<close>

datatype action = RecordGoal player position | UndoLastGoal | SwapPositions int | SwapSides

fun session_step :: "game \<Rightarrow> action \<Rightarrow> game" where
  "session_step st (RecordGoal p pos) = recordGoal st p pos"
| "session_step st UndoLastGoal = undoLastGoal st"
| "session_step st (SwapPositions teamNum) = swapPositions st teamNum"
| "session_step st SwapSides = swapSides st"

definition session_run :: "game \<Rightarrow> action list \<Rightarrow> game" where
  "session_run st acts = foldl session_step st acts"

text \<open>
  For stating properties: the winner label that belongs to a team key, and the number of
  goal-log entries of a team.
\<close>

definition label_of :: "team_key \<Rightarrow> winner_label" where
  "label_of k = (case k of Team1Key \<Rightarrow> Team_1 | Team2Key \<Rightarrow> Team_2)"

definition goals_of :: "team_key \<Rightarrow> goal list \<Rightarrow> int" where
  "goals_of k gs = int (length (filter (\<lambda>g. teamKey g = k) gs))"

section \<open>Persistent store\<close>

record match_goal =
  mg_i :: nat
  mg_playerId :: string
  mg_position :: position
  mg_teamKey :: team_key

record roster_entry =
  re_id :: string
  re_name :: string

record match_record =
  m_createdAt :: int
  m_duration :: int
  m_score :: "team_key \<Rightarrow> int"
  m_winner :: "winner_label option"
  m_team1_striker :: roster_entry
  m_team1_defender :: roster_entry
  m_team2_striker :: roster_entry
  m_team2_defender :: roster_entry
  m_goals :: "match_goal list"

record season_record =
  seasonNumber :: int
  winnerName :: string
  winnerId :: string
  endDate :: int

text \<open>
  The three collections and the \<open>appState/config\<close> document, which holds the current
  season number and may not exist. The player collection is kept as the list of its
  documents, each with its id.
\<close>

record store =
  players :: "player list"
  matches :: "match_record list"
  seasonHistory :: "season_record list"
  appState :: "int option"

definition get_doc :: "player list \<Rightarrow> string \<Rightarrow> player option" where
  "get_doc ps i = find (\<lambda>p. pid p = i) ps"

definition update_doc :: "player list \<Rightarrow> string \<Rightarrow> (player \<Rightarrow> player) \<Rightarrow> player list" where
  "update_doc ps i f = map (\<lambda>p. if pid p = i then f p else p) ps"

subsection \<open>Player administration\<close>

text \<open>
  \<open>handleAddPlayer\<close>: the form's fields, with the country already in upper case and the
  image already replaced by the placeholder when empty (both computed by helpers outside
  the core), and the id the store assigns. The flag says whether the store accepts the
  write; a refused write is logged and changes nothing.
\<close>

definition handleAddPlayer ::
  "store \<Rightarrow> bool \<Rightarrow> string \<Rightarrow> string \<Rightarrow> string \<Rightarrow> string \<Rightarrow> string \<Rightarrow> store" where
  "handleAddPlayer st ok newId fname lname ctry imgUrl =
     (if \<not> ok then st
      else let newPlayer = \<lparr>pid = newId, firstName = fname, lastName = lname, country = ctry, img = imgUrl,
                 pscore = 1500, gamesWon = 0, gamesLost = 0, gamesAsStriker = 0,
                 gamesAsDefender = 0, totalGames = 0, goalsAsStriker = 0,
                 goalsAsDefender = 0, shutoutWins = 0, totalPlaytime = 0,
                 seasonsWon = None\<rparr>
           in st\<lparr>players := players st @ [newPlayer]\<rparr>)"

definition handleUpdatePlayer ::
  "store \<Rightarrow> bool \<Rightarrow> string \<Rightarrow> string \<Rightarrow> string \<Rightarrow> string \<Rightarrow> string \<Rightarrow> store" where
  "handleUpdatePlayer st ok playerId fname lname ctry imgUrl =
     (if \<not> ok \<or> get_doc (players st) playerId = None then st
      else st\<lparr>players := update_doc (players st) playerId
                  (\<lambda>p. p\<lparr>firstName := fname, lastName := lname, country := ctry, img := imgUrl\<rparr>)\<rparr>)"

definition handleDeletePlayer :: "store \<Rightarrow> bool \<Rightarrow> string \<Rightarrow> store" where
  "handleDeletePlayer st ok playerId =
     (if \<not> ok then st else st\<lparr>players := filter (\<lambda>p. pid p \<noteq> playerId) (players st)\<rparr>)"

subsection \<open>Match commit\<close>

text \<open>
  The tally of goals per player id. An entry whose player id is falsy (the empty string)
  is skipped.
\<close>

definition goalsByPlayer :: "goal list \<Rightarrow> (string \<rightharpoonup> int)" where
  "goalsByPlayer gh =
     foldl (\<lambda>acc g. let i = pid (scorer g)
                     in if i = [] then acc
                        else acc(i \<mapsto> (case acc i of None \<Rightarrow> 0 | Some n \<Rightarrow> n) + 1))
           Map.empty gh"

text \<open>
  \<open>applyStats\<close> builds an object of field increments, which \<open>tx.update\<close> applies to the
  document; the model is the resulting change of the document. The tally, the two deltas,
  the shutout flag and the duration are the variables the source's closure captures.
\<close>

definition applyStats ::
  "(string \<rightharpoonup> int) \<Rightarrow> int \<Rightarrow> int \<Rightarrow> bool \<Rightarrow> int \<Rightarrow> string \<Rightarrow> bool \<Rightarrow> position
     \<Rightarrow> player \<Rightarrow> player" where
  "applyStats tally winD loseD isShutout dur snapId didWin pos p =
     (let goals = (case tally snapId of None \<Rightarrow> 0 | Some n \<Rightarrow> n);
          inc = (if didWin then winD else - loseD);
          p1 = p\<lparr>totalGames := totalGames p + 1, pscore := pscore p + inc,
                 totalPlaytime := totalPlaytime p + dur\<rparr>;
          p2 = (if pos = Striker
                then p1\<lparr>gamesAsStriker := gamesAsStriker p1 + 1,
                        goalsAsStriker := goalsAsStriker p1 + goals\<rparr>
                else p1\<lparr>gamesAsDefender := gamesAsDefender p1 + 1,
                        goalsAsDefender := goalsAsDefender p1 + goals\<rparr>)
      in if didWin
         then p2\<lparr>gamesWon := gamesWon p2 + 1,
                 shutoutWins := shutoutWins p2 + (if isShutout then 1 else 0)\<rparr>
         else p2\<lparr>gamesLost := gamesLost p2 + 1\<rparr>)"

definition roster_of :: "player \<Rightarrow> roster_entry" where
  "roster_of p = \<lparr>re_id = pid p, re_name = firstName p @ '' '' @ lastName p\<rparr>"

datatype commit_error = StoreUnavailable | PlayerMissing

text \<open>The ids of the four documents the transaction works on (\<open>pRefs\<close>).\<close>

definition pRefs :: "match_summary \<Rightarrow> string list" where
  "pRefs m = [pid (striker (sum_team1 m)), pid (defender (sum_team1 m)),
              pid (striker (sum_team2 m)), pid (defender (sum_team2 m))]"

text \<open>
  \<open>handleGameEnd\<close>, called with what \<open>confirmWin\<close> handed over. The transaction reads the
  four player documents, computes the deltas from what it read, updates the four
  documents in the order of the source and adds the match record with the server's
  timestamp. It fails as a whole, leaving the store as it was, when the store cannot be
  reached (the flag) or when one of the four documents does not exist (an update of a
  missing document is refused). The handler logs the failure and returns.
\<close>

definition handleGameEnd ::
  "store \<Rightarrow> bool \<Rightarrow> int \<Rightarrow> match_summary \<Rightarrow> commit_error + store" where
  "handleGameEnd st ok serverTime m =
     (let w = sum_winner m; t1 = sum_team1 m; t2 = sum_team2 m;
          sc = sum_score m; gh = sum_goalHistory m; dur = sum_duration m;
          losingTeamScore = (if w = Some Team_1 then sc Team2Key else sc Team1Key);
          isShutout = (losingTeamScore = 0);
          r0 = pid (striker t1); r1 = pid (defender t1);
          r2 = pid (striker t2); r3 = pid (defender t2)
      in if \<not> ok then Inl StoreUnavailable
         else case (get_doc (players st) r0, get_doc (players st) r1,
                    get_doc (players st) r2, get_doc (players st) r3) of
           (Some t1s, Some t1d, Some t2s, Some t2d) \<Rightarrow>
             (let freshWin = (if w = Some Team_1 then (t1s, t1d) else (t2s, t2d));
                  freshLose = (if w = Some Team_1 then (t2s, t2d) else (t1s, t1d));
                  avgWinner = (of_int (pscore (fst freshWin)) + of_int (pscore (snd freshWin))) / 2;
                  avgLoser = (of_int (pscore (fst freshLose)) + of_int (pscore (snd freshLose))) / 2;
                  ch = computeScoreChange avgWinner avgLoser isShutout;
                  tally = goalsByPlayer gh;
                  stats = applyStats tally (winDelta ch) (loseDelta ch) isShutout dur;
                  ps0 = update_doc (players st) r0 (stats r0 (w = Some Team_1) Striker);
                  ps1 = update_doc ps0 r1 (stats r1 (w = Some Team_1) Defender);
                  ps2 = update_doc ps1 r2 (stats r2 (w = Some Team_2) Striker);
                  ps3 = update_doc ps2 r3 (stats r3 (w = Some Team_2) Defender);
                  matchRec = \<lparr>m_createdAt = serverTime, m_duration = dur, m_score = sc,
                              m_winner = w,
                              m_team1_striker = roster_of (striker t1),
                            m_team1_defender = roster_of (defender t1),
                            m_team2_striker = roster_of (striker t2),
                            m_team2_defender = roster_of (defender t2),
                            m_goals = map (\<lambda>(i, g). \<lparr>mg_i = i, mg_playerId = pid (scorer g),
                                                     mg_position = position g,
                                                     mg_teamKey = teamKey g\<rparr>)
                                          (enumerate 0 gh)\<rparr>
              in Inr (st\<lparr>players := ps3, matches := matches st @ [matchRec]\<rparr>))
         | _ \<Rightarrow> Inl PlayerMissing)"

subsection \<open>Season closure\<close>

text \<open>
  The five calls \<open>handleCloseSeason\<close> makes on the store, in order; any of them can be
  refused, which ends the closure where it stands (the error is logged, nothing is
  undone).
\<close>

datatype closure_call = HistoryAppend | TitleIncrement | PlayersRead | RatingReset
  | CounterIncrement

definition historyAppend :: "store \<Rightarrow> season_record \<Rightarrow> store" where
  "historyAppend st r = st\<lparr>seasonHistory := seasonHistory st @ [r]\<rparr>"

text \<open>The number of titles as the source reads it: \<open>seasonsWon || 0\<close>.\<close>

definition titles :: "player \<Rightarrow> int" where
  "titles p = (case seasonsWon p of None \<Rightarrow> 0 | Some n \<Rightarrow> n)"

text \<open>The new title count is computed from the client's copy of the winner.\<close>

definition titleIncrement :: "store \<Rightarrow> player \<Rightarrow> store" where
  "titleIncrement st w =
     st\<lparr>players := update_doc (players st) (pid w) (\<lambda>p. p\<lparr>seasonsWon := Some (titles w + 1)\<rparr>)\<rparr>"

definition ratingReset :: "store \<Rightarrow> store" where
  "ratingReset st = st\<lparr>players := map (\<lambda>p. p\<lparr>pscore := 1500\<rparr>) (players st)\<rparr>"

definition counterIncrement :: "store \<Rightarrow> int \<Rightarrow> store" where
  "counterIncrement st currentSeason =
     st\<lparr>appState := Some ((if currentSeason = 0 then 1 else currentSeason) + 1)\<rparr>"

text \<open>
  \<open>handleCloseSeason\<close> works on the client's copies of the player list and of the season
  number, and on the store. The first argument names the call the store refuses, if any.
  The result is the store afterwards and the call at which the closure stopped (\<open>None\<close>
  when it ran to its end). Updating a document that does not exist is refused as well.
  With an empty player list the handler returns at once.
\<close>

definition handleCloseSeason ::
  "closure_call option \<Rightarrow> player list \<Rightarrow> int \<Rightarrow> int \<Rightarrow> store
     \<Rightarrow> store \<times> closure_call option" where
  "handleCloseSeason refused ps currentSeason serverTime st =
     (case sort_key (\<lambda>p. - pscore p) ps of
        [] \<Rightarrow> (st, None)
      | w # _ \<Rightarrow>
          if refused = Some HistoryAppend then (st, Some HistoryAppend)
          else let st1 = historyAppend st
                     \<lparr>seasonNumber = currentSeason,
                      winnerName = firstName w @ '' '' @ lastName w,
                      winnerId = pid w, endDate = serverTime\<rparr>
          in if refused = Some TitleIncrement \<or> get_doc (players st1) (pid w) = None
             then (st1, Some TitleIncrement)
          else let st2 = titleIncrement st1 w
          in if refused = Some PlayersRead then (st2, Some PlayersRead)
          else if refused = Some RatingReset then (st2, Some RatingReset)
          else let st3 = ratingReset st2
          in if refused = Some CounterIncrement \<or> appState st3 = None
             then (st3, Some CounterIncrement)
          else (counterIncrement st3 currentSeason, None))"

subsection \<open>Sequences of store operations\<close>

datatype store_op =
    AddPlayer bool string string string string string
  | UpdatePlayer bool string string string string string
  | DeletePlayer bool string
  | CommitMatch bool int match_summary
  | CloseSeason "closure_call option" "player list" int int

fun apply_op :: "store \<Rightarrow> store_op \<Rightarrow> store" where
  "apply_op st (AddPlayer ok newId fname lname ctry imgUrl) = handleAddPlayer st ok newId fname lname ctry imgUrl"
| "apply_op st (UpdatePlayer ok playerId fname lname ctry imgUrl) =
     handleUpdatePlayer st ok playerId fname lname ctry imgUrl"
| "apply_op st (DeletePlayer ok playerId) = handleDeletePlayer st ok playerId"
| "apply_op st (CommitMatch ok serverTime m) =
     (case handleGameEnd st ok serverTime m of Inl _ \<Rightarrow> st | Inr st' \<Rightarrow> st')"
| "apply_op st (CloseSeason refused ps currentSeason serverTime) =
     fst (handleCloseSeason refused ps currentSeason serverTime st)"

definition games_consistent :: "player \<Rightarrow> bool" where
  "games_consistent p = (totalGames p = gamesWon p + gamesLost p)"

section \<open>Example data\<close>

definition example_player :: "string \<Rightarrow> string \<Rightarrow> int \<Rightarrow> player" where
  "example_player i name r =
     \<lparr>pid = i, firstName = name, lastName = ''Player'', country = ''DE'', img = [],
      pscore = r, gamesWon = 0, gamesLost = 0, gamesAsStriker = 0, gamesAsDefender = 0,
      totalGames = 0, goalsAsStriker = 0, goalsAsDefender = 0, shutoutWins = 0,
      totalPlaytime = 0, seasonsWon = None\<rparr>"

definition anna :: player where "anna = example_player ''a'' ''Anna'' 1500"

definition ben :: player where "ben = example_player ''b'' ''Ben'' 1500"

definition cleo :: player where "cleo = example_player ''c'' ''Cleo'' 1500"

definition dan :: player where "dan = example_player ''d'' ''Dan'' 1500"

text \<open>Anna and Ben against Cleo and Dan, started at time 1000.\<close>

definition example_start :: game where
  "example_start =
     startMatch \<lparr>striker = anna, defender = ben\<rparr> \<lparr>striker = cleo, defender = dan\<rparr> 1000"

text \<open>Team 2 scores three times, then Team 1 five times.\<close>

definition example_5_3 :: game where
  "example_5_3 = session_run example_start
     [RecordGoal cleo Striker, RecordGoal dan Defender, RecordGoal cleo Striker,
      RecordGoal anna Striker, RecordGoal anna Striker, RecordGoal ben Defender,
      RecordGoal anna Striker, RecordGoal ben Defender]"

definition example_6_3 :: game where
  "example_6_3 = recordGoal example_5_3 anna Striker"

text \<open>
  A sequence of calls with undo on the empty log, undo of a goal, both swaps and goals of
  both teams.
\<close>

definition example_actions :: "action list" where
  "example_actions =
     [RecordGoal anna Striker, UndoLastGoal, UndoLastGoal, RecordGoal cleo Striker,
      SwapPositions 1, SwapSides, RecordGoal ben Striker, RecordGoal dan Defender]"

text \<open>Each team's score is the number of goal-log entries with that team's key.\<close>

definition score_matches_log :: "game \<Rightarrow> bool" where
  "score_matches_log st =
     (score st Team1Key = goals_of Team1Key (goalHistory st)
      \<and> score st Team2Key = goals_of Team2Key (goalHistory st))"

section \<open>Statement helpers and examples for the store\<close>

text \<open>
  For stating what a commit applies: the shutout flag of a summary, and the deltas of the
  formula over the team averages of four given documents, \<open>a\<close> and \<open>b\<close> of Team 1 and
  \<open>c\<close> and \<open>d\<close> of Team 2.
\<close>

definition shutout :: "match_summary \<Rightarrow> bool" where
  "shutout m = ((if sum_winner m = Some Team_1 then sum_score m Team2Key
                 else sum_score m Team1Key) = 0)"

definition fresh_change ::
  "match_summary \<Rightarrow> player \<Rightarrow> player \<Rightarrow> player \<Rightarrow> player \<Rightarrow> score_change" where
  "fresh_change m a b c d =
     (if sum_winner m = Some Team_1
      then computeScoreChange ((of_int (pscore a) + of_int (pscore b)) / 2)
             ((of_int (pscore c) + of_int (pscore d)) / 2) (shutout m)
      else computeScoreChange ((of_int (pscore c) + of_int (pscore d)) / 2)
             ((of_int (pscore a) + of_int (pscore b)) / 2) (shutout m))"

text \<open>The three game counters of a player, and the operations that are commits.\<close>

definition counters :: "player \<Rightarrow> int \<times> int \<times> int" where
  "counters p = (totalGames p, gamesWon p, gamesLost p)"

fun is_commit :: "store_op \<Rightarrow> bool" where
  "is_commit (CommitMatch ok serverTime m) = True"
| "is_commit _ = False"

text \<open>
  Anna scores as striker, Team 1 swaps positions, Anna scores as defender; Ben, now
  striker, scores four times: 6:0.
\<close>

definition example_swapped :: game where
  "example_swapped = session_run example_start
     [RecordGoal anna Striker, SwapPositions 1, RecordGoal anna Defender,
      RecordGoal ben Striker, RecordGoal ben Striker, RecordGoal ben Striker,
      RecordGoal ben Striker]"

text \<open>The four players as they were created, in season 1.\<close>

definition example_store :: store where
  "example_store = \<lparr>players = [anna, ben, cleo, dan], matches = [], seasonHistory = [],
                     appState = Some 1\<rparr>"

text \<open>The summary of the 6:0 match, confirmed at time 61000.\<close>

definition example_summary :: match_summary where
  "example_summary = confirmWin example_swapped 61000"

text \<open>The store after the ratings have moved since the match began.\<close>

definition example_store_later :: store where
  "example_store_later =
     \<lparr>players = [anna\<lparr>pscore := 1700\<rparr>, ben\<lparr>pscore := 1700\<rparr>, cleo\<lparr>pscore := 1300\<rparr>,
                 dan\<lparr>pscore := 1300\<rparr>],
      matches = [], seasonHistory = [], appState = Some 1\<rparr>"

definition empty_store :: store where
  "empty_store = \<lparr>players = [], matches = [], seasonHistory = [], appState = Some 1\<rparr>"

text \<open>Four players are created, play the match, one is edited, the season is closed.\<close>

definition example_ops :: "store_op list" where
  "example_ops =
     [AddPlayer True ''a'' ''Anna'' ''Player'' ''DE'' [],
      AddPlayer True ''b'' ''Ben'' ''Player'' ''DE'' [],
      AddPlayer True ''c'' ''Cleo'' ''Player'' ''DE'' [],
      AddPlayer True ''d'' ''Dan'' ''Player'' ''DE'' [],
      CommitMatch True 70000 example_summary,
      UpdatePlayer True ''c'' ''Cleo'' ''Player'' ''AT'' [],
      CloseSeason None [anna, ben, cleo, dan] 1 80000]"

text \<open>
  For stating what a closure does: the winner it picks from the client's player list, and
  the season record it appends.
\<close>

definition closure_winner :: "player list \<Rightarrow> player" where
  "closure_winner ps = hd (sort_key (\<lambda>p. - pscore p) ps)"

definition closure_record :: "player list \<Rightarrow> int \<Rightarrow> int \<Rightarrow> season_record" where
  "closure_record ps currentSeason serverTime =
     \<lparr>seasonNumber = currentSeason,
      winnerName = firstName (closure_winner ps) @ '' '' @ lastName (closure_winner ps),
      winnerId = pid (closure_winner ps), endDate = serverTime\<rparr>"


text \<open>A store whose season counter stands at 0.\<close>

definition example_store_zero :: store where
  "example_store_zero = example_store_later\<lparr>appState := Some 0\<rparr>"

text \<open>
  A store that has moved on since the client received the list \<open>[anna, ben, cleo, dan]\<close>:
  Anna holds five titles and Ben's rating is 1800.
\<close>

definition example_store_ahead :: store where
  "example_store_ahead =
     \<lparr>players = [anna\<lparr>seasonsWon := Some 5\<rparr>, ben\<lparr>pscore := 1800\<rparr>, cleo, dan],
      matches = [], seasonHistory = [], appState = Some 1\<rparr>"

section \<open>Properties of the rating formula\<close>

lemma math_round_is_round: "math_round x = round x"
  by (simp add: math_round_def round_def)

lemma clamp_1_20: "clamp (d::int) 1 20 = (if d < 1 then 1 else if 20 < d then 20 else d)"
  by (simp add: clamp_def)

lemma spec_dynamic_half_away:
  "spec_dynamic r1 r2 = clamp (round_half_away (10 + (r2 - r1) / 40)) 1 20"
proof (cases "0 \<le> 10 + (r2 - r1) / 40")
  case True
  then show ?thesis
    by (simp add: spec_dynamic_def round_half_away_def round_def clamp_1_20 Let_def)
next
  case False
  then have neg: "10 + (r2 - r1) / 40 < 0" by simp
  then have "\<lfloor>10 + (r2 - r1) / 40 + 1 / 2\<rfloor> \<le> 0"
    by (simp add: floor_le_iff)
  moreover from neg have "\<lceil>10 + (r2 - r1) / 40 - 1 / 2\<rceil> \<le> 0"
    by (simp add: ceiling_le_iff)
  ultimately show ?thesis using False
    by (simp add: spec_dynamic_def round_half_away_def round_def clamp_1_20 Let_def)
qed

text \<open>
  C3. For all average ratings \<open>r1\<close> (winner side) and \<open>r2\<close> (loser side) and every
  shutout flag, the rating formula returns the pair whose loser part is the rounded value
  of \<open>10 + (r2 - r1) / 40\<close> clamped into the range from 1 to 20, and whose winner part is
  that value plus 5 on a shutout and plus 0 otherwise. The three worked examples give
  (10, 10), (1, 1) and (6, 1). Being a function of its three arguments, the result is
  determined by them alone. Rounding ties upwards, as the source does, or away from zero
  gives the same value after the clamp.
\<close>

theorem computeScoreChange_spec:
  "computeScoreChange r1 r2 s =
     \<lparr>winDelta = spec_dynamic r1 r2 + (if s then 5 else 0), loseDelta = spec_dynamic r1 r2\<rparr>
   \<and> 1 \<le> spec_dynamic r1 r2 \<and> spec_dynamic r1 r2 \<le> 20
   \<and> spec_dynamic r1 r2 = clamp (round_half_away (10 + (r2 - r1) / 40)) 1 20
   \<and> computeScoreChange 1500 1500 False = \<lparr>winDelta = 10, loseDelta = 10\<rparr>
   \<and> computeScoreChange 1700 1300 False = \<lparr>winDelta = 1, loseDelta = 1\<rparr>
   \<and> computeScoreChange 1700 1300 True = \<lparr>winDelta = 6, loseDelta = 1\<rparr>"
proof -
  have gen: "computeScoreChange a b t =
      \<lparr>winDelta = spec_dynamic a b + (if t then 5 else 0), loseDelta = spec_dynamic a b\<rparr>"
    for a b t
    by (simp add: computeScoreChange_def spec_dynamic_def Let_def math_round_is_round
        clamp_1_20)
  have lo: "1 \<le> spec_dynamic r1 r2" and hi: "spec_dynamic r1 r2 \<le> 20"
    by (simp_all add: spec_dynamic_def Let_def)
  have e1: "spec_dynamic 1500 1500 = 10"
    by (simp add: spec_dynamic_def Let_def round_def floor_eq_iff)
  have e2: "spec_dynamic 1700 1300 = 1"
    by (simp add: spec_dynamic_def Let_def round_def floor_eq_iff)
  show ?thesis
    using lo hi spec_dynamic_half_away[of r1 r2] by (simp add: gen e1 e2)
qed

section \<open>Properties of the match session\<close>

lemmas example_defs = example_6_3_def example_5_3_def example_start_def session_run_def
  startMatch_def anna_def ben_def cleo_def dan_def example_player_def

lemmas session_defs = recordGoal_def handleGoal_def winner_effect_def winningScoreFor_def
  Let_def undoLastGoal_def handleUndoGoal_def swapPositions_def swapSides_def
  winningScore_def label_of_def

text \<open>Running the effect a second time, as its own assignment makes it do, changes nothing.\<close>

lemma winner_effect_idem: "winner_effect (winner_effect st) = winner_effect st"
  by (simp add: winner_effect_def winningScore_def Let_def)

lemma winner_effect_fields [simp]:
  "score (winner_effect st) = score st"
  "goalHistory (winner_effect st) = goalHistory st"
  "team1 (winner_effect st) = team1 st"
  "team2 (winner_effect st) = team2 st"
  "isSwapped (winner_effect st) = isSwapped st"
  "startTime (winner_effect st) = startTime st"
  by (simp_all add: winner_effect_def Let_def)

lemma winningScore_winner_effect [simp]: "winningScore (winner_effect st) = winningScore st"
  by (simp add: winningScore_def)

lemma winner_effect_winner:
  "winner (winner_effect st) =
     (if score st Team1Key < winningScore st \<and> score st Team2Key < winningScore st then None
      else if winner st = None
           then Some (if score st Team2Key < score st Team1Key then Team_1 else Team_2)
           else winner st)"
  by (auto simp add: winner_effect_def Let_def)

lemma handleGoal_fields:
  "goalHistory (handleGoal st p pos) \<noteq> []"
  "score (handleGoal st p pos) =
     (score st)(teamKey (last (goalHistory (handleGoal st p pos))) :=
        score st (teamKey (last (goalHistory (handleGoal st p pos)))) + 1)"
  "winner (handleGoal st p pos) = winner st"
  by (simp_all add: handleGoal_def Let_def)

text \<open>
  The threshold function is 7 when both scores are exactly 5 and 6 otherwise. When no
  winner is declared and neither team has reached the threshold, a recorded goal adds one
  to the scoring team's score, and the winner afterwards is that team if its new score
  reaches the threshold computed from the new score, and nobody otherwise.
\<close>

lemma goal_declares_winner:
  "winningScoreFor a b = (if a = 5 \<and> b = 5 then 7 else 6)
   \<and> winningScoreFor 5 4 = 6 \<and> winningScoreFor 4 5 = 6 \<and> winningScoreFor 5 5 = 7
   \<and> (winner st = None \<and> score st Team1Key < winningScore st
        \<and> score st Team2Key < winningScore st
      \<longrightarrow> (let st' = recordGoal st p pos; k = teamKey (last (goalHistory st'))
           in score st' k = score st k + 1
              \<and> winner st' = (if winningScore st' \<le> score st' k then Some (label_of k)
                             else None)))"
proof -
  have thr: "winningScoreFor a b = (if a = 5 \<and> b = 5 then 7 else 6)" for a b
    by (simp add: winningScoreFor_def)
  have win: "let st' = recordGoal st p pos; k = teamKey (last (goalHistory st'))
           in score st' k = score st k + 1
              \<and> winner st' = (if winningScore st' \<le> score st' k then Some (label_of k)
                             else None)"
    if play: "winner st = None" "score st Team1Key < winningScore st"
      "score st Team2Key < winningScore st"
  proof (cases "teamKey (last (goalHistory (handleGoal st p pos)))")
    case Team1Key
    with play handleGoal_fields[of st p pos] show ?thesis
      by (auto simp add: Let_def recordGoal_def winner_effect_winner winningScore_def thr
          label_of_def split: if_splits)
  next
    case Team2Key
    with play handleGoal_fields[of st p pos] show ?thesis
      by (auto simp add: Let_def recordGoal_def winner_effect_winner winningScore_def thr
          label_of_def split: if_splits)
  qed
  show ?thesis using win by (simp add: thr)
qed

lemma goal_declares_winner_example:
  "winner example_5_3 = None \<and> score example_5_3 Team1Key = 5
   \<and> score example_5_3 Team2Key = 3 \<and> winningScore example_5_3 = 6
   \<and> score (recordGoal example_5_3 anna Striker) Team1Key = 6
   \<and> winner (recordGoal example_5_3 anna Striker) = Some Team_1"
proof -
  have pre: "winner example_5_3 = None" "score example_5_3 Team1Key = 5"
    "score example_5_3 Team2Key = 3" "winningScore example_5_3 = 6"
    by (simp_all add: example_defs session_defs)
  have k: "teamKey (last (goalHistory (recordGoal example_5_3 anna Striker))) = Team1Key"
    by (simp add: example_defs session_defs)
  from goal_declares_winner[of 5 3 example_5_3 anna Striker] pre k show ?thesis
    by (simp add: Let_def winningScore_def label_of_def winningScoreFor_def)
qed

text \<open>
  In every state the two tests of the effect against the threshold come out as they
  would against 6: the value 7 is taken only at 5:5, where both scores are below 6 too.
\<close>

lemma raised_target_inert:
  "(score st Team1Key < winningScore st \<and> score st Team2Key < winningScore st)
     = (score st Team1Key < 6 \<and> score st Team2Key < 6)"
  by (auto simp add: winningScore_def winningScoreFor_def)

lemma deuce_ends_at_next_goal:
  "score st Team1Key = 5 \<and> score st Team2Key = 5 \<Longrightarrow> winner (recordGoal st p pos) \<noteq> None"
  by (auto simp add: session_defs)


text \<open>
  C6. In any state of a live match, with or without a declared winner: on an empty goal
  log, undo changes nothing. Otherwise it removes the last goal-log entry and lowers the
  score of that entry's team by one, not below 0, leaving the other score alone; if
  afterwards neither team meets the threshold computed from the new score, no winner is
  declared any more, and if a team still meets it, a declared winner stays.
\<close>

theorem undoLastGoal_spec:
  "(goalHistory st = [] \<longrightarrow> undoLastGoal st = st)
   \<and> (goalHistory st \<noteq> [] \<longrightarrow>
        (let g = last (goalHistory st); st' = undoLastGoal st
         in goalHistory st' = butlast (goalHistory st)
            \<and> score st' (teamKey g) = max 0 (score st (teamKey g) - 1)
            \<and> (\<forall>k. k \<noteq> teamKey g \<longrightarrow> score st' k = score st k)
            \<and> (score st' Team1Key < winningScore st' \<and> score st' Team2Key < winningScore st'
                 \<longrightarrow> winner st' = None)
            \<and> (\<not> (score st' Team1Key < winningScore st' \<and> score st' Team2Key < winningScore st')
                 \<longrightarrow> winner st \<noteq> None \<longrightarrow> winner st' = winner st)))"
  by (auto simp add: undoLastGoal_def handleUndoGoal_def Let_def winner_effect_winner winningScore_def)

theorem undoLastGoal_spec_witness:
  "goalHistory example_6_3 \<noteq> []
   \<and> score example_6_3 Team1Key = 6 \<and> score example_6_3 Team2Key = 3
   \<and> winner example_6_3 = Some Team_1 \<and> winningScore example_6_3 = 6
   \<and> teamKey (last (goalHistory example_6_3)) = Team1Key
   \<and> length (goalHistory (undoLastGoal example_6_3)) = 8
   \<and> score (undoLastGoal example_6_3) Team1Key = 5
   \<and> score (undoLastGoal example_6_3) Team2Key = 3
   \<and> winningScore (undoLastGoal example_6_3) = 6
   \<and> winner (undoLastGoal example_6_3) = None
   \<and> goalHistory example_start = [] \<and> undoLastGoal example_start = example_start"
proof -
  have pre: "goalHistory example_6_3 \<noteq> []" "score example_6_3 Team1Key = 6"
    "score example_6_3 Team2Key = 3" "winner example_6_3 = Some Team_1"
    "teamKey (last (goalHistory example_6_3)) = Team1Key"
    "length (goalHistory example_6_3) = 9"
    by (simp_all add: example_defs session_defs)
  have e: "goalHistory example_start = []"
    by (simp add: example_defs)
  from undoLastGoal_spec[of example_6_3] undoLastGoal_spec[of example_start] pre e
  show ?thesis
    by (simp add: Let_def winningScore_def winningScoreFor_def)
qed

lemma goals_of_snoc: "goals_of k (gs @ [g]) = goals_of k gs + (if teamKey g = k then 1 else 0)"
  by (simp add: goals_of_def)

lemma goals_of_butlast:
  "gs \<noteq> [] \<Longrightarrow> goals_of k (butlast gs) = goals_of k gs - (if teamKey (last gs) = k then 1 else 0)"
  using goals_of_snoc[of k "butlast gs" "last gs"] by simp

lemma goals_of_last_pos: "gs \<noteq> [] \<Longrightarrow> 1 \<le> goals_of (teamKey (last gs)) gs"
  using goals_of_snoc[of "teamKey (last gs)" "butlast gs" "last gs"]
  by (simp add: goals_of_def)

lemma score_matches_log_all: "score_matches_log st \<Longrightarrow> score st k = goals_of k (goalHistory st)"
  by (cases k) (simp_all add: score_matches_log_def)

lemma score_matches_log_step:
  assumes "score_matches_log st"
  shows "score_matches_log (session_step st a)"
proof (cases a)
  case (RecordGoal p pos)
  with assms show ?thesis
    by (auto simp add: score_matches_log_def recordGoal_def handleGoal_def Let_def goals_of_snoc)
next
  case UndoLastGoal
  show ?thesis
  proof (cases "goalHistory st = []")
    case True
    with assms UndoLastGoal show ?thesis
      by (simp add: undoLastGoal_def handleUndoGoal_def)
  next
    case False
    from goals_of_last_pos[OF False] score_matches_log_all[OF assms]
    have "1 \<le> score st (teamKey (last (goalHistory st)))" by simp
    with assms False UndoLastGoal show ?thesis
      by (cases "teamKey (last (goalHistory st))")
         (auto simp add: score_matches_log_def undoLastGoal_def handleUndoGoal_def Let_def
           goals_of_butlast)
  qed
next
  case (SwapPositions n)
  with assms show ?thesis by (simp add: score_matches_log_def swapPositions_def)
next
  case SwapSides
  with assms show ?thesis by (simp add: score_matches_log_def swapSides_def)
qed

lemma score_matches_log_run:
  "score_matches_log st \<Longrightarrow> score_matches_log (session_run st acts)"
  unfolding session_run_def
  by (induction acts arbitrary: st) (simp_all add: score_matches_log_step)

lemma score_matches_log_start: "score_matches_log (startMatch t1 t2 now)"
  by (simp add: score_matches_log_def startMatch_def goals_of_def)

text \<open>
  C10. In every state reached from the start of a match (0:0, empty goal log) by any
  sequence of recorded goals, undos, position swaps and side swaps, each team's score is
  the number of goal-log entries carrying that team's key; so no score is negative, and
  when the log is not empty the floor at 0 in undo leaves the decremented score as it is.
\<close>

theorem score_counts_goal_log:
  "(let st = session_run (startMatch t1 t2 now) acts
    in score st Team1Key = goals_of Team1Key (goalHistory st)
       \<and> score st Team2Key = goals_of Team2Key (goalHistory st)
       \<and> 0 \<le> score st Team1Key \<and> 0 \<le> score st Team2Key
       \<and> (goalHistory st \<noteq> [] \<longrightarrow>
            max 0 (score st (teamKey (last (goalHistory st))) - 1)
              = score st (teamKey (last (goalHistory st))) - 1))"
proof -
  define st where "st = session_run (startMatch t1 t2 now) acts"
  have inv: "score_matches_log st"
    unfolding st_def by (rule score_matches_log_run[OF score_matches_log_start])
  have nonneg: "0 \<le> score st k" for k
    using score_matches_log_all[OF inv, of k] by (simp add: goals_of_def)
  have floor: "max 0 (score st (teamKey (last (goalHistory st))) - 1)
              = score st (teamKey (last (goalHistory st))) - 1" if "goalHistory st \<noteq> []"
    using goals_of_last_pos[OF that] score_matches_log_all[OF inv] by simp
  from inv have eqs: "score st Team1Key = goals_of Team1Key (goalHistory st)"
    "score st Team2Key = goals_of Team2Key (goalHistory st)"
    by (simp_all add: score_matches_log_def)
  from eqs nonneg[of Team1Key] nonneg[of Team2Key] floor show ?thesis
    unfolding Let_def st_def[symmetric] by blast
qed

theorem score_counts_goal_log_witness:
  "goalHistory (session_run example_start example_actions) \<noteq> []
   \<and> score (session_run example_start example_actions) Team1Key = 1
   \<and> goals_of Team1Key (goalHistory (session_run example_start example_actions)) = 1
   \<and> score (session_run example_start example_actions) Team2Key = 2
   \<and> goals_of Team2Key (goalHistory (session_run example_start example_actions)) = 2
   \<and> max 0 (score (session_run example_start example_actions)
               (teamKey (last (goalHistory (session_run example_start example_actions)))) - 1)
       = 1"
proof -
  have ne: "length (goalHistory (session_run example_start example_actions)) = 3"
    "score (session_run example_start example_actions) Team2Key = 2"
    "score (session_run example_start example_actions) Team1Key = 1"
    "teamKey (last (goalHistory (session_run example_start example_actions))) = Team2Key"
    by (simp_all add: example_actions_def example_defs session_defs)
  then have ne': "goalHistory (session_run example_start example_actions) \<noteq> []"
    by auto
  from score_counts_goal_log[of "\<lparr>striker = anna, defender = ben\<rparr>"
      "\<lparr>striker = cleo, defender = dan\<rparr>" 1000 example_actions] ne ne'
  show ?thesis
    by (simp add: Let_def example_start_def)
qed

text \<open>
  C7, as stated, fails: \<open>confirmWin\<close> has no check of its own. Called at the start of a
  match, where no winner is declared, it raises no error and hands over a summary whose
  winner is null, with score 0:0, an empty goal log and the elapsed time.
\<close>

theorem confirmWin_while_playing:
  "winner example_start = None
   \<and> sum_winner (confirmWin example_start 6000) = None
   \<and> sum_goalHistory (confirmWin example_start 6000) = []
   \<and> sum_score (confirmWin example_start 6000) Team1Key = 0
   \<and> sum_score (confirmWin example_start 6000) Team2Key = 0
   \<and> sum_duration (confirmWin example_start 6000) = 5000"
  by (simp add: confirmWin_def example_defs Let_def)

text \<open>
  C7, amended. The confirm button exists exactly while a winner is declared. With no
  winner declared there is nothing to press: no summary is produced and the state is
  untouched, but no error is raised either. With a winner declared, pressing it hands
  over the summary with that winner, the two teams, the final score, the full goal log
  and the time elapsed since the start of the match. The handler behind the button
  passes on whatever winner the state holds.
\<close>

theorem confirm_only_when_won:
  "(confirmButton st now = None) = (winner st = None)
   \<and> (winner st \<noteq> None \<longrightarrow>
        confirmButton st now =
          Some \<lparr>sum_winner = winner st, sum_team1 = team1 st, sum_team2 = team2 st,
                sum_score = score st, sum_goalHistory = goalHistory st,
                sum_duration = now - startTime st\<rparr>)
   \<and> sum_winner (confirmWin st now) = winner st"
  by (simp add: confirmButton_def confirmWin_def Let_def)

theorem confirm_only_when_won_witness:
  "winner example_6_3 \<noteq> None
   \<and> confirmButton example_6_3 61000 =
       Some \<lparr>sum_winner = Some Team_1, sum_team1 = \<lparr>striker = anna, defender = ben\<rparr>,
             sum_team2 = \<lparr>striker = cleo, defender = dan\<rparr>,
             sum_score = score example_6_3, sum_goalHistory = goalHistory example_6_3,
             sum_duration = 60000\<rparr>
   \<and> score example_6_3 Team1Key = 6 \<and> score example_6_3 Team2Key = 3
   \<and> length (goalHistory example_6_3) = 9
   \<and> confirmButton example_start 61000 = None"
proof -
  have pre: "winner example_6_3 = Some Team_1" "team1 example_6_3 = \<lparr>striker = anna, defender = ben\<rparr>"
    "team2 example_6_3 = \<lparr>striker = cleo, defender = dan\<rparr>" "startTime example_6_3 = 1000"
    "score example_6_3 Team1Key = 6" "score example_6_3 Team2Key = 3"
    "length (goalHistory example_6_3) = 9"
    by (simp_all add: example_defs session_defs)
  have pre0: "winner example_start = None"
    by (simp add: example_defs)
  from confirm_only_when_won[of example_6_3 61000] confirm_only_when_won[of example_start 61000]
    pre pre0
  show ?thesis by simp
qed

section \<open>Properties of the match commit\<close>

lemma example_swapped_state:
  "winner example_swapped = Some Team_1"
  "score example_swapped Team1Key = 6" "score example_swapped Team2Key = 0"
  "team1 example_swapped = \<lparr>striker = ben, defender = anna\<rparr>"
  "team2 example_swapped = \<lparr>striker = cleo, defender = dan\<rparr>"
  "map (\<lambda>g. (pid (scorer g), position g)) (goalHistory example_swapped) =
     [(''a'', Striker), (''a'', Defender), (''b'', Striker), (''b'', Striker),
      (''b'', Striker), (''b'', Striker)]"
  by (simp_all add: example_swapped_def example_defs session_defs)

text \<open>
  C1 asks that every goal be credited to the position its goal-log entry records: a
  player who scores once as striker, swaps, and scores once as defender should gain one
  goal as striker and one as defender. The commit credits all goals of a player to the
  position the player holds when the match is confirmed. In the example the log records
  Anna once as striker and once as defender, and Ben four times as striker; the commit
  succeeds and leaves Anna with 0 goals as striker and 2 as defender.
\<close>

theorem goals_credited_to_final_position:
  "map (\<lambda>g. (pid (scorer g), position g)) (sum_goalHistory (confirmWin example_swapped 61000)) =
     [(''a'', Striker), (''a'', Defender), (''b'', Striker), (''b'', Striker),
      (''b'', Striker), (''b'', Striker)]
   \<and> \<not> isl (handleGameEnd example_store True 70000 (confirmWin example_swapped 61000))
   \<and> map (\<lambda>p. (pid p, goalsAsStriker p, goalsAsDefender p))
        (players (projr (handleGameEnd example_store True 70000
                           (confirmWin example_swapped 61000)))) =
     [(''a'', 0, 2), (''b'', 4, 0), (''c'', 0, 0), (''d'', 0, 0)]"
  by code_simp

lemma get_doc_update_doc:
  assumes "\<And>p. pid (f p) = pid p"
  shows "get_doc (update_doc ps i f) j =
           (if j = i then map_option f (get_doc ps j) else get_doc ps j)"
  using assms by (induction ps) (auto simp add: get_doc_def update_doc_def)

lemma get_doc_map:
  assumes "\<And>p. pid (f p) = pid p"
  shows "get_doc (map f ps) j = map_option f (get_doc ps j)"
  using assms by (induction ps) (auto simp add: get_doc_def)

lemma get_doc_filter:
  "get_doc (filter (\<lambda>p. pid p \<noteq> i) ps) j = (if j = i then None else get_doc ps j)"
  by (induction ps) (auto simp add: get_doc_def)

lemma pid_applyStats [simp]: "pid (applyStats tally wd ld sh dur i dw pos p) = pid p"
  by (simp add: applyStats_def Let_def)

lemma applyStats_pscore:
  "pscore (applyStats tally wd ld sh dur i dw pos p) = pscore p + (if dw then wd else - ld)"
  by (simp add: applyStats_def Let_def)

lemma applyStats_games:
  "totalGames (applyStats tally wd ld sh dur i dw pos p) = totalGames p + 1"
  "gamesWon (applyStats tally wd ld sh dur i dw pos p) = gamesWon p + (if dw then 1 else 0)"
  "gamesLost (applyStats tally wd ld sh dur i dw pos p) = gamesLost p + (if dw then 0 else 1)"
  by (simp_all add: applyStats_def Let_def)

lemma handleGameEnd_docs:
  fixes m :: match_summary and a b c d :: player and stats
  defines "stats \<equiv> applyStats (goalsByPlayer (sum_goalHistory m))
     (winDelta (fresh_change m a b c d)) (loseDelta (fresh_change m a b c d)) (shutout m)
     (sum_duration m)"
  assumes docs: "get_doc (players st) (pRefs m ! 0) = Some a"
      "get_doc (players st) (pRefs m ! 1) = Some b"
      "get_doc (players st) (pRefs m ! 2) = Some c"
      "get_doc (players st) (pRefs m ! 3) = Some d"
    and dist: "distinct (pRefs m)"
  shows "\<exists>st'. handleGameEnd st True ts m = Inr st'
     \<and> seasonHistory st' = seasonHistory st \<and> appState st' = appState st
     \<and> length (matches st') = length (matches st) + 1
     \<and> (\<forall>j. get_doc (players st') j =
          (if j = pRefs m ! 0 then Some (stats j (sum_winner m = Some Team_1) Striker a)
           else if j = pRefs m ! 1 then Some (stats j (sum_winner m = Some Team_1) Defender b)
           else if j = pRefs m ! 2 then Some (stats j (sum_winner m = Some Team_2) Striker c)
           else if j = pRefs m ! 3 then Some (stats j (sum_winner m = Some Team_2) Defender d)
           else get_doc (players st) j))"
  using docs dist unfolding stats_def
  by (auto simp add: handleGameEnd_def pRefs_def Let_def fresh_change_def shutout_def
      get_doc_update_doc)

text \<open>
  C4. When the four player documents exist and are distinct, the commit succeeds, and the
  rating of each of the four afterwards is the rating read in the transaction plus the
  winner's delta or minus the loser's delta, both computed by the formula over the team
  averages of the ratings read in the transaction. The ratings carried in the summary's
  player objects, taken when the match began, do not occur.
\<close>

theorem commit_reads_ratings_in_transaction:
  assumes "get_doc (players st) (pRefs m ! 0) = Some a"
    and "get_doc (players st) (pRefs m ! 1) = Some b"
    and "get_doc (players st) (pRefs m ! 2) = Some c"
    and "get_doc (players st) (pRefs m ! 3) = Some d"
    and "distinct (pRefs m)"
  shows "\<exists>st'. handleGameEnd st True ts m = Inr st'
     \<and> map (\<lambda>j. map_option pscore (get_doc (players st') j)) (pRefs m) =
         (let ch = fresh_change m a b c d;
              d1 = (if sum_winner m = Some Team_1 then winDelta ch else - loseDelta ch);
              d2 = (if sum_winner m = Some Team_2 then winDelta ch else - loseDelta ch)
          in [Some (pscore a + d1), Some (pscore b + d1),
              Some (pscore c + d2), Some (pscore d + d2)])"
proof -
  from handleGameEnd_docs[OF assms, where ts = ts] obtain st' where
    r: "handleGameEnd st True ts m = Inr st'" and
    g: "\<And>j. get_doc (players st') j =
          (if j = pRefs m ! 0 then Some (applyStats (goalsByPlayer (sum_goalHistory m))
     (winDelta (fresh_change m a b c d)) (loseDelta (fresh_change m a b c d)) (shutout m)
     (sum_duration m) j (sum_winner m = Some Team_1) Striker a)
           else if j = pRefs m ! 1 then Some (applyStats (goalsByPlayer (sum_goalHistory m))
     (winDelta (fresh_change m a b c d)) (loseDelta (fresh_change m a b c d)) (shutout m)
     (sum_duration m) j (sum_winner m = Some Team_1) Defender b)
           else if j = pRefs m ! 2 then Some (applyStats (goalsByPlayer (sum_goalHistory m))
     (winDelta (fresh_change m a b c d)) (loseDelta (fresh_change m a b c d)) (shutout m)
     (sum_duration m) j (sum_winner m = Some Team_2) Striker c)
           else if j = pRefs m ! 3 then Some (applyStats (goalsByPlayer (sum_goalHistory m))
     (winDelta (fresh_change m a b c d)) (loseDelta (fresh_change m a b c d)) (shutout m)
     (sum_duration m) j (sum_winner m = Some Team_2) Defender d)
           else get_doc (players st) j)"
    by blast
  have l4: "pRefs m = [pRefs m ! 0, pRefs m ! 1, pRefs m ! 2, pRefs m ! 3]"
    by (simp add: pRefs_def)
  have d4: "pRefs m ! 0 \<noteq> pRefs m ! 1" "pRefs m ! 0 \<noteq> pRefs m ! 2" "pRefs m ! 0 \<noteq> pRefs m ! 3"
    "pRefs m ! 1 \<noteq> pRefs m ! 2" "pRefs m ! 1 \<noteq> pRefs m ! 3" "pRefs m ! 2 \<noteq> pRefs m ! 3"
    using assms(5) by (simp_all add: pRefs_def)
  have "map (\<lambda>j. map_option pscore (get_doc (players st') j))
          [pRefs m ! 0, pRefs m ! 1, pRefs m ! 2, pRefs m ! 3] =
         (let ch = fresh_change m a b c d;
              d1 = (if sum_winner m = Some Team_1 then winDelta ch else - loseDelta ch);
              d2 = (if sum_winner m = Some Team_2 then winDelta ch else - loseDelta ch)
          in [Some (pscore a + d1), Some (pscore b + d1),
              Some (pscore c + d2), Some (pscore d + d2)])"
    using d4 by (simp add: g applyStats_pscore Let_def)
  with r l4 show ?thesis by metis
qed

lemma example_summary_facts:
  "sum_winner example_summary = Some Team_1"
  "sum_score example_summary Team1Key = 6" "sum_score example_summary Team2Key = 0"
  "pRefs example_summary = [''b'', ''a'', ''c'', ''d'']"
  "map pscore [striker (sum_team1 example_summary), defender (sum_team1 example_summary),
     striker (sum_team2 example_summary), defender (sum_team2 example_summary)]
     = [1500, 1500, 1500, 1500]"
  by (simp_all add: example_summary_def confirmWin_def Let_def example_swapped_state pRefs_def
      anna_def ben_def cleo_def dan_def example_player_def)

theorem commit_reads_ratings_in_transaction_witness:
  "get_doc (players example_store_later) (pRefs example_summary ! 0) = Some (ben\<lparr>pscore := 1700\<rparr>)
   \<and> get_doc (players example_store_later) (pRefs example_summary ! 1) = Some (anna\<lparr>pscore := 1700\<rparr>)
   \<and> get_doc (players example_store_later) (pRefs example_summary ! 2) = Some (cleo\<lparr>pscore := 1300\<rparr>)
   \<and> get_doc (players example_store_later) (pRefs example_summary ! 3) = Some (dan\<lparr>pscore := 1300\<rparr>)
   \<and> distinct (pRefs example_summary)
   \<and> map pscore [striker (sum_team1 example_summary), defender (sum_team1 example_summary),
        striker (sum_team2 example_summary), defender (sum_team2 example_summary)]
       = [1500, 1500, 1500, 1500]
   \<and> map (\<lambda>j. map_option pscore
               (get_doc (players (projr (handleGameEnd example_store_later True 70000
                                           example_summary))) j))
        (pRefs example_summary) = [Some 1706, Some 1706, Some 1299, Some 1299]"
proof -
  have h: "get_doc (players example_store_later) (pRefs example_summary ! 0) = Some (ben\<lparr>pscore := 1700\<rparr>)"
    "get_doc (players example_store_later) (pRefs example_summary ! 1) = Some (anna\<lparr>pscore := 1700\<rparr>)"
    "get_doc (players example_store_later) (pRefs example_summary ! 2) = Some (cleo\<lparr>pscore := 1300\<rparr>)"
    "get_doc (players example_store_later) (pRefs example_summary ! 3) = Some (dan\<lparr>pscore := 1300\<rparr>)"
    "distinct (pRefs example_summary)"
    by (simp_all add: example_summary_facts example_store_later_def get_doc_def
        anna_def ben_def cleo_def dan_def example_player_def)
  have ch: "fresh_change example_summary (ben\<lparr>pscore := 1700\<rparr>) (anna\<lparr>pscore := 1700\<rparr>)
              (cleo\<lparr>pscore := 1300\<rparr>) (dan\<lparr>pscore := 1300\<rparr>) = \<lparr>winDelta = 6, loseDelta = 1\<rparr>"
    by (simp add: fresh_change_def shutout_def example_summary_facts computeScoreChange_def
        math_round_def clamp_def Let_def floor_eq_iff)
  from commit_reads_ratings_in_transaction[OF h, of 70000] obtain st' where
    "handleGameEnd example_store_later True 70000 example_summary = Inr st'"
    "map (\<lambda>j. map_option pscore (get_doc (players st') j)) (pRefs example_summary) =
       [Some 1706, Some 1706, Some 1299, Some 1299]"
    by (auto simp add: ch example_summary_facts Let_def)
  with h example_summary_facts(5) show ?thesis by simp
qed

lemma games_consistent_applyStats:
  "games_consistent p \<Longrightarrow> games_consistent (applyStats tally wd ld sh dur i dw pos p)"
  by (simp add: games_consistent_def applyStats_games)

lemma list_all_update_doc:
  "(\<And>p. P p \<Longrightarrow> P (f p)) \<Longrightarrow> list_all P ps \<Longrightarrow> list_all P (update_doc ps i f)"
  by (induction ps) (simp_all add: update_doc_def)

lemma list_all_map_keep:
  "(\<And>p. P p \<Longrightarrow> P (f p)) \<Longrightarrow> list_all P ps \<Longrightarrow> list_all P (map f ps)"
  by (induction ps) simp_all

lemma handleGameEnd_consistent:
  assumes "list_all games_consistent (players st)"
    and "handleGameEnd st ok ts m = Inr st'"
  shows "list_all games_consistent (players st')"
proof -
  from assms(2) obtain f0 f1 f2 f3 where
    ps: "players st' = update_doc (update_doc (update_doc (update_doc (players st)
            (pRefs m ! 0) f0) (pRefs m ! 1) f1) (pRefs m ! 2) f2) (pRefs m ! 3) f3"
    and keep: "\<And>p. games_consistent p \<Longrightarrow> games_consistent (f0 p)"
      "\<And>p. games_consistent p \<Longrightarrow> games_consistent (f1 p)"
      "\<And>p. games_consistent p \<Longrightarrow> games_consistent (f2 p)"
      "\<And>p. games_consistent p \<Longrightarrow> games_consistent (f3 p)"
    by (auto simp add: handleGameEnd_def pRefs_def Let_def games_consistent_applyStats
        split: if_splits option.splits)
  show ?thesis
    unfolding ps using keep assms(1) by (intro list_all_update_doc) 
qed

lemma handleCloseSeason_players:
  "players (fst (handleCloseSeason refused ps cs ts st)) = players st
   \<or> (\<exists>w. players (fst (handleCloseSeason refused ps cs ts st))
            = update_doc (players st) (pid w) (\<lambda>p. p\<lparr>seasonsWon := Some (titles w + 1)\<rparr>))
   \<or> (\<exists>w. players (fst (handleCloseSeason refused ps cs ts st))
            = map (\<lambda>p. p\<lparr>pscore := 1500\<rparr>)
                (update_doc (players st) (pid w) (\<lambda>p. p\<lparr>seasonsWon := Some (titles w + 1)\<rparr>)))"
  by (auto simp add: handleCloseSeason_def Let_def historyAppend_def titleIncrement_def
      ratingReset_def counterIncrement_def split: list.splits)

lemma handleCloseSeason_consistent:
  assumes "list_all games_consistent (players st)"
  shows "list_all games_consistent (players (fst (handleCloseSeason refused ps cs ts st)))"
proof -
  have k1: "games_consistent (p\<lparr>seasonsWon := x\<rparr>)" if "games_consistent p" for p x
    using that by (simp add: games_consistent_def)
  have k2: "games_consistent (p\<lparr>pscore := x\<rparr>)" if "games_consistent p" for p x
    using that by (simp add: games_consistent_def)
  from handleCloseSeason_players[of refused ps cs ts st] assms show ?thesis
    by (auto intro!: list_all_update_doc list_all_map_keep k1 k2)
qed

lemma apply_op_consistent:
  assumes "list_all games_consistent (players st)"
  shows "list_all games_consistent (players (apply_op st op))"
proof (cases op)
  case (AddPlayer ok newId fname lname ctry imgUrl)
  with assms show ?thesis
    by (simp add: handleAddPlayer_def Let_def games_consistent_def)
next
  case (UpdatePlayer ok playerId fname lname ctry imgUrl)
  have "games_consistent (p\<lparr>firstName := fname, lastName := lname, country := ctry, img := imgUrl\<rparr>)"
    if "games_consistent p" for p
    using that by (simp add: games_consistent_def)
  with assms UpdatePlayer show ?thesis
    by (auto simp add: handleUpdatePlayer_def intro!: list_all_update_doc)
next
  case (DeletePlayer ok playerId)
  with assms show ?thesis
    by (simp add: handleDeletePlayer_def list_all_iff)
next
  case (CommitMatch ok serverTime m)
  with assms handleGameEnd_consistent[of st ok serverTime m] show ?thesis
    by (cases "handleGameEnd st ok serverTime m") simp_all
next
  case (CloseSeason refused ps cs ts)
  with handleCloseSeason_consistent[OF assms] show ?thesis by simp
qed

lemma run_ops_consistent:
  "list_all games_consistent (players st) \<Longrightarrow>
     list_all games_consistent (players (foldl apply_op st ops))"
  by (induction ops arbitrary: st) (simp_all add: apply_op_consistent)

lemma handleGameEnd_Inr:
  assumes "handleGameEnd st ok ts m = Inr st'"
  shows "ok \<and> (\<exists>a b c d. get_doc (players st) (pRefs m ! 0) = Some a
      \<and> get_doc (players st) (pRefs m ! 1) = Some b
      \<and> get_doc (players st) (pRefs m ! 2) = Some c
      \<and> get_doc (players st) (pRefs m ! 3) = Some d)"
  using assms
  by (auto simp add: handleGameEnd_def pRefs_def Let_def split: if_splits option.splits)

lemma commit_counters:
  assumes ok: "handleGameEnd st ok ts m = Inr st'" and dist: "distinct (pRefs m)"
  shows "(\<forall>i\<in>set (pRefs m). \<exists>p p'. get_doc (players st) i = Some p
            \<and> get_doc (players st') i = Some p'
            \<and> totalGames p' = totalGames p + 1
            \<and> (gamesWon p' = gamesWon p + 1 \<and> gamesLost p' = gamesLost p
                 \<or> gamesWon p' = gamesWon p \<and> gamesLost p' = gamesLost p + 1))
       \<and> (\<forall>j. j \<notin> set (pRefs m) \<longrightarrow> get_doc (players st') j = get_doc (players st) j)"
proof -
  from handleGameEnd_Inr[OF ok] obtain a b c d where
    t: "ok" and docs: "get_doc (players st) (pRefs m ! 0) = Some a"
      "get_doc (players st) (pRefs m ! 1) = Some b"
      "get_doc (players st) (pRefs m ! 2) = Some c"
      "get_doc (players st) (pRefs m ! 3) = Some d"
    by blast
  from handleGameEnd_docs[OF docs dist, where ts = ts] ok t obtain stats where
    res: "\<And>j. get_doc (players st') j =
          (if j = pRefs m ! 0 then Some (stats j (sum_winner m = Some Team_1) Striker a)
           else if j = pRefs m ! 1 then Some (stats j (sum_winner m = Some Team_1) Defender b)
           else if j = pRefs m ! 2 then Some (stats j (sum_winner m = Some Team_2) Striker c)
           else if j = pRefs m ! 3 then Some (stats j (sum_winner m = Some Team_2) Defender d)
           else get_doc (players st) j)"
    and stats: "\<And>j dw pos p. totalGames (stats j dw pos p) = totalGames p + 1"
      "\<And>j dw pos p. gamesWon (stats j dw pos p) = gamesWon p + (if dw then 1 else 0)"
      "\<And>j dw pos p. gamesLost (stats j dw pos p) = gamesLost p + (if dw then 0 else 1)"
    by (auto simp add: applyStats_games)
  have set4: "set (pRefs m) = {pRefs m ! 0, pRefs m ! 1, pRefs m ! 2, pRefs m ! 3}"
    by (simp add: pRefs_def)
  have d4: "pRefs m ! 0 \<noteq> pRefs m ! 1" "pRefs m ! 0 \<noteq> pRefs m ! 2" "pRefs m ! 0 \<noteq> pRefs m ! 3"
    "pRefs m ! 1 \<noteq> pRefs m ! 2" "pRefs m ! 1 \<noteq> pRefs m ! 3" "pRefs m ! 2 \<noteq> pRefs m ! 3"
    using dist by (simp_all add: pRefs_def)
  show ?thesis
    unfolding set4 using docs d4
    by (simp add: res stats)
qed

lemma get_doc_snoc:
  "get_doc (ps @ [q]) j =
     (case get_doc ps j of None \<Rightarrow> if pid q = j then Some q else None | Some p \<Rightarrow> Some p)"
  by (induction ps) (auto simp add: get_doc_def)

lemma other_ops_counters:
  assumes "\<not> is_commit op" and "get_doc (players (apply_op st op)) i = Some p'"
  shows "(case get_doc (players st) i of
            Some p \<Rightarrow> counters p' = counters p
          | None \<Rightarrow> counters p' = (0, 0, 0))"
proof (cases op)
  case (AddPlayer ok newId fname lname ctry imgUrl)
  with assms show ?thesis
    by (auto simp add: handleAddPlayer_def Let_def get_doc_snoc counters_def
        split: option.splits if_splits)
next
  case (UpdatePlayer ok playerId fname lname ctry imgUrl)
  with assms show ?thesis
    by (auto simp add: handleUpdatePlayer_def get_doc_update_doc counters_def
        split: option.splits if_splits)
next
  case (DeletePlayer ok playerId)
  with assms show ?thesis
    by (auto simp add: handleDeletePlayer_def get_doc_filter split: option.splits if_splits)
next
  case (CommitMatch ok serverTime m)
  with assms show ?thesis by simp
next
  case (CloseSeason refused ps cs ts)
  with assms handleCloseSeason_players[of refused ps cs ts st] show ?thesis
    by (auto simp add: get_doc_update_doc get_doc_map counters_def
        split: option.splits if_splits)
qed

text \<open>
  C9. Starting from a store without players, after any sequence of player creations,
  edits, deletions, match commits and season closures (failed or not), every player has
  totalGames = gamesWon + gamesLost. A successful commit on four distinct participants
  adds exactly 1 to totalGames and exactly 1 to exactly one of gamesWon and gamesLost of
  each participant and leaves every other document as it was. An operation other than a
  commit leaves the three counters of every existing player as they were, and a player it
  creates has all three at 0.
\<close>

theorem games_counters_invariant:
  "(players st0 = [] \<longrightarrow> list_all games_consistent (players (foldl apply_op st0 ops)))
   \<and> (handleGameEnd st ok ts m = Inr st' \<and> distinct (pRefs m) \<longrightarrow>
        (\<forall>i\<in>set (pRefs m). \<exists>p p'. get_doc (players st) i = Some p
            \<and> get_doc (players st') i = Some p'
            \<and> totalGames p' = totalGames p + 1
            \<and> (gamesWon p' = gamesWon p + 1 \<and> gamesLost p' = gamesLost p
                 \<or> gamesWon p' = gamesWon p \<and> gamesLost p' = gamesLost p + 1))
        \<and> (\<forall>j. j \<notin> set (pRefs m) \<longrightarrow> get_doc (players st') j = get_doc (players st) j))
   \<and> (\<not> is_commit op \<and> get_doc (players (apply_op st op)) i = Some q' \<longrightarrow>
        (case get_doc (players st) i of
           Some q \<Rightarrow> counters q' = counters q
         | None \<Rightarrow> counters q' = (0, 0, 0)))"
proof (intro conjI impI)
  assume "players st0 = []"
  then have "list_all games_consistent (players st0)" by simp
  then show "list_all games_consistent (players (foldl apply_op st0 ops))"
    by (rule run_ops_consistent)
next
  assume a: "handleGameEnd st ok ts m = Inr st' \<and> distinct (pRefs m)"
  from commit_counters[of st ok ts m st'] a
  show "\<forall>i\<in>set (pRefs m). \<exists>p p'. get_doc (players st) i = Some p
            \<and> get_doc (players st') i = Some p'
            \<and> totalGames p' = totalGames p + 1
            \<and> (gamesWon p' = gamesWon p + 1 \<and> gamesLost p' = gamesLost p
                 \<or> gamesWon p' = gamesWon p \<and> gamesLost p' = gamesLost p + 1)"
    by blast
  from commit_counters[of st ok ts m st'] a
  show "\<forall>j. j \<notin> set (pRefs m) \<longrightarrow> get_doc (players st') j = get_doc (players st) j"
    by blast
next
  assume "\<not> is_commit op \<and> get_doc (players (apply_op st op)) i = Some q'"
  then show "case get_doc (players st) i of
           Some q \<Rightarrow> counters q' = counters q
         | None \<Rightarrow> counters q' = (0, 0, 0)"
    using other_ops_counters[of op st i q'] by blast
qed

theorem games_counters_invariant_witness:
  "players empty_store = []
   \<and> list_all games_consistent (players (foldl apply_op empty_store example_ops))
   \<and> map counters (players (foldl apply_op empty_store example_ops))
       = [(1, 1, 0), (1, 1, 0), (1, 0, 1), (1, 0, 1)]
   \<and> \<not> isl (handleGameEnd example_store True 70000 example_summary)
   \<and> distinct (pRefs example_summary)
   \<and> map (\<lambda>i. map_option counters (get_doc (players example_store) i)) (pRefs example_summary)
       = [Some (0, 0, 0), Some (0, 0, 0), Some (0, 0, 0), Some (0, 0, 0)]
   \<and> map (\<lambda>i. map_option counters
               (get_doc (players (projr (handleGameEnd example_store True 70000
                                           example_summary))) i))
        (pRefs example_summary)
       = [Some (1, 1, 0), Some (1, 1, 0), Some (1, 0, 1), Some (1, 0, 1)]
   \<and> \<not> is_commit (CloseSeason (Some RatingReset) [anna, ben, cleo, dan] 1 80000)
   \<and> map_option counters
        (get_doc (players (apply_op example_store
                            (CloseSeason (Some RatingReset) [anna, ben, cleo, dan] 1 80000)))
           ''a'') = Some (0, 0, 0)"
proof -
  have e: "players empty_store = []"
    by (simp add: empty_store_def)
  have c: "map counters (players (foldl apply_op empty_store example_ops))
       = [(1, 1, 0), (1, 1, 0), (1, 0, 1), (1, 0, 1)]"
    by code_simp
  have r: "\<not> isl (handleGameEnd example_store True 70000 example_summary)"
    by code_simp
  then have r': "handleGameEnd example_store True 70000 example_summary
      = Inr (projr (handleGameEnd example_store True 70000 example_summary))"
    by (cases "handleGameEnd example_store True 70000 example_summary") simp_all
  have d: "distinct (pRefs example_summary)"
    by (simp add: example_summary_facts)
  have b: "map (\<lambda>i. map_option counters (get_doc (players example_store) i)) (pRefs example_summary)
       = [Some (0, 0, 0), Some (0, 0, 0), Some (0, 0, 0), Some (0, 0, 0)]"
    by code_simp
  have a: "map (\<lambda>i. map_option counters
               (get_doc (players (projr (handleGameEnd example_store True 70000
                                           example_summary))) i))
        (pRefs example_summary)
       = [Some (1, 1, 0), Some (1, 1, 0), Some (1, 0, 1), Some (1, 0, 1)]"
    by code_simp
  have o: "get_doc (players (apply_op example_store
                            (CloseSeason (Some RatingReset) [anna, ben, cleo, dan] 1 80000)))
           ''a'' = Some (anna\<lparr>seasonsWon := Some 1\<rparr>)"
    by code_simp
  have o': "get_doc (players example_store) ''a'' = Some anna"
    by code_simp
  from games_counters_invariant[of empty_store example_ops example_store True 70000
      example_summary "projr (handleGameEnd example_store True 70000 example_summary)"
      "CloseSeason (Some RatingReset) [anna, ben, cleo, dan] 1 80000" "''a''"
      "anna\<lparr>seasonsWon := Some 1\<rparr>"] e r' d o o'
  have "list_all games_consistent (players (foldl apply_op empty_store example_ops))"
    and "counters (anna\<lparr>seasonsWon := Some 1\<rparr>) = counters anna"
    by simp_all
  moreover have "counters anna = (0, 0, 0)"
    by code_simp
  ultimately show ?thesis
    using e c r d b a o by simp
qed

section \<open>Properties of the season closure\<close>

lemma sort_key_nonempty: "ps \<noteq> [] \<Longrightarrow> sort_key f ps \<noteq> []"
  by (metis set_sort set_empty)

lemma closure_steps:
  assumes "ps \<noteq> []"
  shows "handleCloseSeason refused ps cs ts st =
    (let w = closure_winner ps;
         st1 = historyAppend st (closure_record ps cs ts);
         st2 = titleIncrement st1 w;
         st3 = ratingReset st2
     in if refused = Some HistoryAppend then (st, Some HistoryAppend)
        else if refused = Some TitleIncrement \<or> get_doc (players st) (pid w) = None
          then (st1, Some TitleIncrement)
        else if refused = Some PlayersRead then (st2, Some PlayersRead)
        else if refused = Some RatingReset then (st2, Some RatingReset)
        else if refused = Some CounterIncrement \<or> appState st = None
          then (st3, Some CounterIncrement)
        else (counterIncrement st3 cs, None))"
proof -
  from sort_key_nonempty[OF assms] obtain w rest where
    s: "sort_key (\<lambda>p. - pscore p) ps = w # rest"
    by (cases "sort_key (\<lambda>p. - pscore p) ps") auto
  then have w: "closure_winner ps = w" by (simp add: closure_winner_def)
  show ?thesis
    by (simp add: handleCloseSeason_def s w Let_def closure_record_def historyAppend_def
        titleIncrement_def ratingReset_def)
qed

text \<open>
  C2 asks that after a failure during closure the store shows all four effects or none.
  It fails: when the title increment is refused, the season record of the closing season
  is already in the history, while no title, no rating and not the season counter has
  changed.
\<close>

theorem closure_not_atomic:
  "seasonHistory (fst (handleCloseSeason (Some TitleIncrement) [anna, ben, cleo, dan] 1 80000
                        example_store))
     = [\<lparr>seasonNumber = 1, winnerName = ''Anna Player'', winnerId = ''a'', endDate = 80000\<rparr>]
   \<and> seasonHistory example_store = []
   \<and> players (fst (handleCloseSeason (Some TitleIncrement) [anna, ben, cleo, dan] 1 80000
                     example_store)) = players example_store
   \<and> appState (fst (handleCloseSeason (Some TitleIncrement) [anna, ben, cleo, dan] 1 80000
                      example_store)) = appState example_store
   \<and> snd (handleCloseSeason (Some TitleIncrement) [anna, ben, cleo, dan] 1 80000
            example_store) = Some TitleIncrement"
  by code_simp

text \<open>
  C2, amended. A closure makes its writes one after the other in the order history
  append, title increment, rating reset, season-counter increment, and a refused call
  ends it without undoing anything: the store afterwards shows exactly the effects of the
  writes before the refused call. So after any failure the season counter is as it was;
  the counter is advanced only with the history record appended, and player documents
  are changed only with the history record appended.
\<close>

theorem closure_keeps_prefix:
  "ps \<noteq> [] \<longrightarrow>
   (let w = closure_winner ps; r = closure_record ps cs ts;
        st' = fst (handleCloseSeason refused ps cs ts st);
        stopped = snd (handleCloseSeason refused ps cs ts st)
    in (refused \<noteq> None \<longrightarrow> stopped \<noteq> None)
     \<and> (stopped = Some HistoryAppend \<longrightarrow> st' = st)
     \<and> (stopped = Some TitleIncrement \<longrightarrow> st' = historyAppend st r)
     \<and> (stopped = Some PlayersRead \<or> stopped = Some RatingReset \<longrightarrow>
           st' = titleIncrement (historyAppend st r) w)
     \<and> (stopped = Some CounterIncrement \<longrightarrow>
           st' = ratingReset (titleIncrement (historyAppend st r) w))
     \<and> (stopped = None \<longrightarrow>
           st' = counterIncrement (ratingReset (titleIncrement (historyAppend st r) w)) cs)
     \<and> (stopped \<noteq> None \<longrightarrow> appState st' = appState st)
     \<and> (appState st' \<noteq> appState st \<longrightarrow> seasonHistory st' = seasonHistory st @ [r])
     \<and> (players st' \<noteq> players st \<longrightarrow> seasonHistory st' = seasonHistory st @ [r]))"
proof (cases refused)
  case None
  then show ?thesis
    by (auto simp add: closure_steps Let_def historyAppend_def titleIncrement_def
        ratingReset_def counterIncrement_def)
next
  case (Some x)
  then show ?thesis
    by (cases x)
       (auto simp add: closure_steps Let_def historyAppend_def titleIncrement_def
         ratingReset_def counterIncrement_def)
qed

theorem closure_keeps_prefix_witness:
  "players example_store_later \<noteq> []
   \<and> snd (handleCloseSeason (Some CounterIncrement) (players example_store_later) 1 80000
            example_store_later) = Some CounterIncrement
   \<and> fst (handleCloseSeason (Some CounterIncrement) (players example_store_later) 1 80000
            example_store_later)
       = ratingReset (titleIncrement
           (historyAppend example_store_later
              (closure_record (players example_store_later) 1 80000))
           (closure_winner (players example_store_later)))
   \<and> appState (fst (handleCloseSeason (Some CounterIncrement) (players example_store_later)
                      1 80000 example_store_later)) = Some 1
   \<and> seasonHistory (fst (handleCloseSeason (Some CounterIncrement)
                           (players example_store_later) 1 80000 example_store_later))
       = [\<lparr>seasonNumber = 1, winnerName = ''Anna Player'', winnerId = ''a'',
           endDate = 80000\<rparr>]
   \<and> map (\<lambda>p. (pid p, pscore p, seasonsWon p))
        (players (fst (handleCloseSeason (Some CounterIncrement)
                         (players example_store_later) 1 80000 example_store_later)))
       = [(''a'', 1500, Some 1), (''b'', 1500, None), (''c'', 1500, None),
          (''d'', 1500, None)]"
proof -
  have ne: "players example_store_later \<noteq> []"
    by (simp add: example_store_later_def)
  have stop: "snd (handleCloseSeason (Some CounterIncrement) (players example_store_later) 1
                     80000 example_store_later) = Some CounterIncrement"
    by code_simp
  have app: "appState example_store_later = Some 1"
    by (simp add: example_store_later_def)
  have hist: "seasonHistory (fst (handleCloseSeason (Some CounterIncrement)
                           (players example_store_later) 1 80000 example_store_later))
       = [\<lparr>seasonNumber = 1, winnerName = ''Anna Player'', winnerId = ''a'',
           endDate = 80000\<rparr>]"
    by code_simp
  have pl: "map (\<lambda>p. (pid p, pscore p, seasonsWon p))
        (players (fst (handleCloseSeason (Some CounterIncrement)
                         (players example_store_later) 1 80000 example_store_later)))
       = [(''a'', 1500, Some 1), (''b'', 1500, None), (''c'', 1500, None),
          (''d'', 1500, None)]"
    by code_simp
  have nz: "snd (handleCloseSeason (Some CounterIncrement) (players example_store_later) 1
                     80000 example_store_later) \<noteq> None"
    using stop by simp
  note T = closure_keeps_prefix[where ps = "players example_store_later" and cs = 1
      and ts = 80000 and refused = "Some CounterIncrement" and st = example_store_later,
      unfolded Let_def]
  from T ne stop
  have A: "fst (handleCloseSeason (Some CounterIncrement) (players example_store_later) 1 80000
            example_store_later)
       = ratingReset (titleIncrement
           (historyAppend example_store_later
              (closure_record (players example_store_later) 1 80000))
           (closure_winner (players example_store_later)))"
    by blast
  from T ne nz
  have "appState (fst (handleCloseSeason (Some CounterIncrement) (players example_store_later)
                      1 80000 example_store_later)) = appState example_store_later"
    by blast
  with app
  have B: "appState (fst (handleCloseSeason (Some CounterIncrement) (players example_store_later)
                      1 80000 example_store_later)) = Some 1"
    by simp
  from ne stop A B hist pl show ?thesis by blast
qed

lemma closure_winner_sorted:
  assumes "ps \<noteq> []"
  obtains rest where "sort_key (\<lambda>p. - pscore p) ps = closure_winner ps # rest"
  using sort_key_nonempty[OF assms, of "\<lambda>p. - pscore p"]
  by (cases "sort_key (\<lambda>p. - pscore p) ps") (auto simp add: closure_winner_def)

lemma closure_winner_in: "ps \<noteq> [] \<Longrightarrow> closure_winner ps \<in> set ps"
  by (metis closure_winner_sorted list.set_intros(1) set_sort)

lemma closure_winner_max:
  assumes "ps \<noteq> []" and "p \<in> set ps"
  shows "pscore p \<le> pscore (closure_winner ps)"
proof -
  from closure_winner_sorted[OF assms(1)] obtain rest where
    s: "sort_key (\<lambda>p. - pscore p) ps = closure_winner ps # rest" .
  have "sorted (map (\<lambda>p. - pscore p) (sort_key (\<lambda>p. - pscore p) ps))"
    by (rule sorted_sort_key)
  with s have "\<forall>q\<in>set rest. - pscore (closure_winner ps) \<le> - pscore q"
    by simp
  moreover have "p \<in> set (closure_winner ps # rest)"
    using assms(2) s by (metis set_sort)
  ultimately show ?thesis by auto
qed

lemma closure_winner_first:
  assumes "ps \<noteq> []"
  shows "closure_winner ps = hd (filter (\<lambda>p. pscore p = pscore (closure_winner ps)) ps)"
proof -
  from closure_winner_sorted[OF assms] obtain rest where
    s: "sort_key (\<lambda>p. - pscore p) ps = closure_winner ps # rest" .
  have "filter (\<lambda>p. - pscore p = - pscore (closure_winner ps)) (sort_key (\<lambda>p. - pscore p) ps)
      = filter (\<lambda>p. - pscore p = - pscore (closure_winner ps)) ps"
    by (rule sort_key_stable)
  with s have "filter (\<lambda>p. pscore p = pscore (closure_winner ps)) ps
      = closure_winner ps # filter (\<lambda>p. pscore p = pscore (closure_winner ps)) rest"
    by simp
  then show ?thesis by simp
qed

lemma distinct_pid_unique:
  "distinct (map pid ps) \<Longrightarrow> p \<in> set ps \<Longrightarrow> q \<in> set ps \<Longrightarrow> pid p = pid q \<Longrightarrow> p = q"
  by (meson distinct_map inj_onD)

lemma get_doc_member:
  "p \<in> set ps \<Longrightarrow> get_doc ps (pid p) \<noteq> None"
  by (auto simp add: get_doc_def find_None_iff)

lemma filter_pid_single:
  "distinct (map pid ps) \<Longrightarrow> w \<in> set ps \<Longrightarrow> filter (\<lambda>p. pid p = pid w) ps = [w]"
proof (induction ps)
  case Nil
  then show ?case by simp
next
  case (Cons a ps)
  show ?case
  proof (cases "a = w")
    case True
    with Cons.prems have "pid w \<notin> pid ` set ps" by simp
    then have "\<forall>p\<in>set ps. pid p \<noteq> pid w" by (metis imageI)
    then have "filter (\<lambda>p. pid p = pid w) ps = []" by (simp add: filter_empty_conv)
    with True show ?thesis by simp
  next
    case False
    with Cons.prems have "w \<in> set ps" "pid a \<noteq> pid w" by auto
    with Cons show ?thesis by simp
  qed
qed

text \<open>
  C8, as stated for every non-empty player set, fails: the closure takes the winner, the
  winner's new title count and the new season number from the client's copies and writes
  them as they are. With the season counter at 0 the closure runs to its end, appends a
  record numbered 0 and sets the counter to 2. With a client list that lags behind the
  store it runs to its end as well: Anna, first of the client's list, is recorded as
  winner although Ben is the store's top-rated player, and her five titles become one.
\<close>

theorem closure_writes_client_values:
  "snd (handleCloseSeason None (players example_store_zero) 0 80000 example_store_zero)
     = None
   \<and> appState example_store_zero = Some 0
   \<and> appState (fst (handleCloseSeason None (players example_store_zero) 0 80000
                      example_store_zero)) = Some 2
   \<and> map seasonNumber
        (seasonHistory (fst (handleCloseSeason None (players example_store_zero) 0 80000
                               example_store_zero))) = [0]
   \<and> snd (handleCloseSeason None [anna, ben, cleo, dan] 1 80000 example_store_ahead) = None
   \<and> map (\<lambda>p. (pid p, pscore p, titles p)) (players example_store_ahead)
       = [(''a'', 1500, 5), (''b'', 1800, 0), (''c'', 1500, 0), (''d'', 1500, 0)]
   \<and> map winnerId
        (seasonHistory (fst (handleCloseSeason None [anna, ben, cleo, dan] 1 80000
                               example_store_ahead))) = [''a'']
   \<and> map (\<lambda>p. (pid p, pscore p, titles p))
        (players (fst (handleCloseSeason None [anna, ben, cleo, dan] 1 80000
                         example_store_ahead)))
       = [(''a'', 1500, 1), (''b'', 1500, 0), (''c'', 1500, 0), (''d'', 1500, 0)]"
  by code_simp

text \<open>
  C8, amended. Given a player list that is the store's current one, not empty and with
  distinct ids, and a season number that is the store's current one and not 0: a closure
  in which no call is refused runs to its end. Its winner is a player of the list with
  the highest rating, the first such in the list. Afterwards every player has rating 1500
  and is otherwise unchanged, except that the winner's title count is one higher; the
  winner is the only player whose title count differs; the history has one more record,
  with the closing season number and the winner's id and name; the season counter is one
  higher; the matches are untouched.
\<close>

theorem closure_completes:
  assumes "ps = players st" and "ps \<noteq> []" and "distinct (map pid ps)"
    and "appState st = Some cs" and "cs \<noteq> 0"
  shows "let w = closure_winner ps; st' = fst (handleCloseSeason None ps cs ts st)
         in snd (handleCloseSeason None ps cs ts st) = None
          \<and> w \<in> set ps \<and> (\<forall>p\<in>set ps. pscore p \<le> pscore w)
          \<and> w = hd (filter (\<lambda>p. pscore p = pscore w) ps)
          \<and> players st' =
              map (\<lambda>p. if pid p = pid w
                        then p\<lparr>pscore := 1500, seasonsWon := Some (titles p + 1)\<rparr>
                        else p\<lparr>pscore := 1500\<rparr>) ps
          \<and> filter (\<lambda>(p, p'). titles p' \<noteq> titles p) (zip ps (players st')) =
              [(w, w\<lparr>pscore := 1500, seasonsWon := Some (titles w + 1)\<rparr>)]
          \<and> seasonHistory st' = seasonHistory st @
              [\<lparr>seasonNumber = cs, winnerName = firstName w @ '' '' @ lastName w,
                winnerId = pid w, endDate = ts\<rparr>]
          \<and> appState st' = Some (cs + 1)
          \<and> matches st' = matches st"
proof -
  define w where "w = closure_winner ps"
  define g where "g = (\<lambda>p. if pid p = pid w
                        then p\<lparr>pscore := 1500, seasonsWon := Some (titles p + 1)\<rparr>
                        else p\<lparr>pscore := 1500\<rparr>)"
  have win: "w \<in> set ps" unfolding w_def by (rule closure_winner_in[OF assms(2)])
  have wmax: "\<forall>p\<in>set ps. pscore p \<le> pscore w"
    unfolding w_def using closure_winner_max[OF assms(2)] by blast
  have wfirst: "w = hd (filter (\<lambda>p. pscore p = pscore w) ps)"
    unfolding w_def by (rule closure_winner_first[OF assms(2)])
  have doc: "get_doc (players st) (pid w) \<noteq> None"
    using get_doc_member[OF win] assms(1) by simp
  have res: "handleCloseSeason None ps cs ts st =
      (counterIncrement (ratingReset (titleIncrement
          (historyAppend st (closure_record ps cs ts)) w)) cs, None)"
    using doc assms(4) by (simp add: closure_steps[OF assms(2)] Let_def w_def)
  have same: "p\<lparr>seasonsWon := Some (titles w + 1)\<rparr> = p\<lparr>seasonsWon := Some (titles p + 1)\<rparr>"
    if "p \<in> set ps" "pid p = pid w" for p
    using distinct_pid_unique[OF assms(3) that(1) win that(2)] by simp
  have pl: "players (fst (handleCloseSeason None ps cs ts st)) = map g ps"
    unfolding res using same assms(1)
    by (auto simp add: counterIncrement_def ratingReset_def titleIncrement_def
        historyAppend_def update_doc_def g_def)
  have zip: "zip ps (map g ps) = map (\<lambda>p. (p, g p)) ps"
    by (induction ps) simp_all
  have chg: "(titles (g p) \<noteq> titles p) = (pid p = pid w)" for p
    by (simp add: g_def titles_def)
  have "filter (\<lambda>(p, p'). titles p' \<noteq> titles p) (zip ps (map g ps))
      = map (\<lambda>p. (p, g p)) (filter (\<lambda>p. pid p = pid w) ps)"
    by (simp add: zip filter_map comp_def chg)
  also have "\<dots> = [(w, g w)]"
    by (simp add: filter_pid_single[OF assms(3) win])
  finally have one: "filter (\<lambda>(p, p'). titles p' \<noteq> titles p) (zip ps (map g ps))
      = [(w, w\<lparr>pscore := 1500, seasonsWon := Some (titles w + 1)\<rparr>)]"
    by (simp add: g_def)
  have hist: "seasonHistory (fst (handleCloseSeason None ps cs ts st)) = seasonHistory st @
              [\<lparr>seasonNumber = cs, winnerName = firstName w @ '' '' @ lastName w,
                winnerId = pid w, endDate = ts\<rparr>]"
    unfolding res
    by (simp add: counterIncrement_def ratingReset_def titleIncrement_def historyAppend_def
        closure_record_def w_def)
  have app: "appState (fst (handleCloseSeason None ps cs ts st)) = Some (cs + 1)"
    unfolding res using assms(5) by (simp add: counterIncrement_def)
  have mat: "matches (fst (handleCloseSeason None ps cs ts st)) = matches st"
    unfolding res
    by (simp add: counterIncrement_def ratingReset_def titleIncrement_def historyAppend_def)
  have stop: "snd (handleCloseSeason None ps cs ts st) = None"
    unfolding res by simp
  show ?thesis
    unfolding Let_def w_def[symmetric]
    using stop win wmax wfirst pl one hist app mat
    by (simp add: g_def)
qed

theorem closure_completes_witness:
  "players example_store_later \<noteq> [] \<and> distinct (map pid (players example_store_later))
   \<and> appState example_store_later = Some 1 \<and> (1::int) \<noteq> 0
   \<and> map (\<lambda>p. (pid p, pscore p, titles p)) (players example_store_later)
       = [(''a'', 1700, 0), (''b'', 1700, 0), (''c'', 1300, 0), (''d'', 1300, 0)]
   \<and> pid (closure_winner (players example_store_later)) = ''a''
   \<and> snd (handleCloseSeason None (players example_store_later) 1 80000 example_store_later)
       = None
   \<and> map (\<lambda>p. (pid p, pscore p, titles p))
        (players (fst (handleCloseSeason None (players example_store_later) 1 80000
                         example_store_later)))
       = [(''a'', 1500, 1), (''b'', 1500, 0), (''c'', 1500, 0), (''d'', 1500, 0)]
   \<and> seasonHistory (fst (handleCloseSeason None (players example_store_later) 1 80000
                           example_store_later))
       = [\<lparr>seasonNumber = 1, winnerName = ''Anna Player'', winnerId = ''a'',
           endDate = 80000\<rparr>]
   \<and> appState (fst (handleCloseSeason None (players example_store_later) 1 80000
                      example_store_later)) = Some 2"
proof -
  have h: "players example_store_later = players example_store_later"
    "players example_store_later \<noteq> []" "distinct (map pid (players example_store_later))"
    "appState example_store_later = Some 1" "(1::int) \<noteq> 0"
    by (simp_all add: example_store_later_def anna_def ben_def cleo_def dan_def
        example_player_def)
  have before: "map (\<lambda>p. (pid p, pscore p, titles p)) (players example_store_later)
       = [(''a'', 1700, 0), (''b'', 1700, 0), (''c'', 1300, 0), (''d'', 1300, 0)]"
    by code_simp
  have w: "pid (closure_winner (players example_store_later)) = ''a''"
    "firstName (closure_winner (players example_store_later)) = ''Anna''"
    "lastName (closure_winner (players example_store_later)) = ''Player''"
    by code_simp+
  have after: "map (\<lambda>p. (pid p, pscore p, titles p))
        (players (fst (handleCloseSeason None (players example_store_later) 1 80000
                         example_store_later)))
       = [(''a'', 1500, 1), (''b'', 1500, 0), (''c'', 1500, 0), (''d'', 1500, 0)]"
    by code_simp
  have sh: "seasonHistory example_store_later = []"
    by (simp add: example_store_later_def)
  from closure_completes[OF h, of 80000]
  have "snd (handleCloseSeason None (players example_store_later) 1 80000 example_store_later)
       = None"
    and "seasonHistory (fst (handleCloseSeason None (players example_store_later) 1 80000
                           example_store_later))
       = [\<lparr>seasonNumber = 1, winnerName = ''Anna Player'', winnerId = ''a'',
           endDate = 80000\<rparr>]"
    and "appState (fst (handleCloseSeason None (players example_store_later) 1 80000
                      example_store_later)) = Some 2"
    by (simp_all add: Let_def w sh)
  with h before w(1) after show ?thesis by simp
qed

end
